theory Spec2Isabelle
  imports Complex_Main
begin

section \<open>Python values and exceptions\<close>

text \<open>
  The exceptions the modelled code can raise. A function of the source that may raise
  returns \<open>error + 'a\<close>, with \<open>Inl\<close> for the exception.
\<close>

datatype error = AttributeError | KeyError | ValueError

definition bind_err :: "error + 'a \<Rightarrow> ('a \<Rightarrow> error + 'b) \<Rightarrow> error + 'b" where
  "bind_err m f = (case m of Inl e \<Rightarrow> Inl e | Inr x \<Rightarrow> f x)"

text \<open>\<open>d[k]\<close> on a dict raises KeyError for a missing key.\<close>

definition dict_getitem :: "('k \<rightharpoonup> 'v) \<Rightarrow> 'k \<Rightarrow> error + 'v" where
  "dict_getitem d k = (case d k of None \<Rightarrow> Inl KeyError | Some v \<Rightarrow> Inr v)"

text \<open>\<open>xs.remove(x)\<close> deletes the first occurrence and raises ValueError when there is none.\<close>

definition list_remove :: "'a list \<Rightarrow> 'a \<Rightarrow> error + 'a list" where
  "list_remove xs x = (if x \<in> set xs then Inr (remove1 x xs) else Inl ValueError)"

section \<open>models/infrastructure.py\<close>

datatype SectionType = SINGLE_LINE | DOUBLE_LINE | MULTIPLE_LINE | JUNCTION | YARD | PLATFORM

fun SectionType_value :: "SectionType \<Rightarrow> string" where
  "SectionType_value SINGLE_LINE = ''single_line''"
| "SectionType_value DOUBLE_LINE = ''double_line''"
| "SectionType_value MULTIPLE_LINE = ''multiple_line''"
| "SectionType_value JUNCTION = ''junction''"
| "SectionType_value YARD = ''yard''"
| "SectionType_value PLATFORM = ''platform''"

datatype SectionStatus = AVAILABLE | OCCUPIED | BLOCKED | MAINTENANCE | RESERVED

text \<open>
  \<open>TrackSection\<close>: the fields the scheduling and occupancy code reads or writes.
  \<open>length_km\<close> is a Python float, taken to be finite and kept as a rational.
\<close>

record TrackSection =
  section_id :: string
  section_type :: SectionType
  length_km :: rat
  max_speed_limit :: int
  max_trains :: int
  connected_sections :: "string list"
  current_status :: SectionStatus
  occupying_trains :: "string list"
  reserved_for :: "string option"

record RailwayNetwork =
  sections :: "string \<rightharpoonup> TrackSection"
  adjacency_matrix :: "string \<rightharpoonup> string list"

definition get_route_sections :: "RailwayNetwork \<Rightarrow> string \<Rightarrow> string \<Rightarrow> string list" where
  "get_route_sections net origin destination =
     (if origin = destination then [origin]
      else (case adjacency_matrix net origin of
              Some adj \<Rightarrow> if destination \<in> set adj then [origin, destination] else []
            | None \<Rightarrow> []))"

definition check_section_capacity :: "RailwayNetwork \<Rightarrow> string \<Rightarrow> bool" where
  "check_section_capacity net sid =
     (case sections net sid of
        None \<Rightarrow> False
      | Some section \<Rightarrow> int (length (occupying_trains section)) < max_trains section)"

text \<open>
  The three mutators change one \<open>TrackSection\<close> of \<open>self.sections\<close> in place and return a
  bool; the model returns the bool with the network after the call.
\<close>

definition reserve_section :: "RailwayNetwork \<Rightarrow> string \<Rightarrow> string \<Rightarrow> error + (bool \<times> RailwayNetwork)" where
  "reserve_section net sid tid =
     (if sid \<notin> dom (sections net) then Inr (False, net)
      else bind_err (dict_getitem (sections net) sid) (\<lambda>section.
        if current_status section = AVAILABLE \<and> reserved_for section = None
        then Inr (True, net\<lparr>sections := (sections net)(sid \<mapsto>
                    section\<lparr>reserved_for := Some tid, current_status := RESERVED\<rparr>)\<rparr>)
        else Inr (False, net)))"

definition occupy_section :: "RailwayNetwork \<Rightarrow> string \<Rightarrow> string \<Rightarrow> error + (bool \<times> RailwayNetwork)" where
  "occupy_section net sid tid =
     (if sid \<notin> dom (sections net) then Inr (False, net)
      else bind_err (dict_getitem (sections net) sid) (\<lambda>section.
        if current_status section \<in> set [AVAILABLE, RESERVED]
           \<and> int (length (occupying_trains section)) < max_trains section
        then Inr (True, net\<lparr>sections := (sections net)(sid \<mapsto>
                    section\<lparr>occupying_trains := occupying_trains section @ [tid],
                            current_status := OCCUPIED,
                            reserved_for := None\<rparr>)\<rparr>)
        else Inr (False, net)))"

definition release_section :: "RailwayNetwork \<Rightarrow> string \<Rightarrow> string \<Rightarrow> error + (bool \<times> RailwayNetwork)" where
  "release_section net sid tid =
     (if sid \<notin> dom (sections net) then Inr (False, net)
      else bind_err (dict_getitem (sections net) sid) (\<lambda>section.
        if tid \<in> set (occupying_trains section)
        then bind_err (list_remove (occupying_trains section) tid) (\<lambda>occ.
               let section' = section\<lparr>occupying_trains := occ\<rparr>;
                   section'' = (if occ = [] then section'\<lparr>current_status := AVAILABLE\<rparr>
                                else section')
               in Inr (True, net\<lparr>sections := (sections net)(sid \<mapsto> section'')\<rparr>))
        else Inr (False, net)))"

text \<open>A sequence of calls on one network object; it stops at the first exception.\<close>

datatype section_call =
    Reserve string string
  | Occupy string string
  | Release string string

fun call_section_op :: "RailwayNetwork \<Rightarrow> section_call \<Rightarrow> error + (bool \<times> RailwayNetwork)" where
  "call_section_op net (Reserve sid tid) = reserve_section net sid tid"
| "call_section_op net (Occupy sid tid) = occupy_section net sid tid"
| "call_section_op net (Release sid tid) = release_section net sid tid"

fun run_section_calls :: "RailwayNetwork \<Rightarrow> section_call list \<Rightarrow> error + RailwayNetwork" where
  "run_section_calls net [] = Inr net"
| "run_section_calls net (c # cs) =
     bind_err (call_section_op net c) (\<lambda>(ok, net'). run_section_calls net' cs)"

text \<open>What one section of a network looks like from outside.\<close>

definition occupants :: "RailwayNetwork \<Rightarrow> string \<Rightarrow> string list" where
  "occupants net sid = (case sections net sid of None \<Rightarrow> [] | Some section \<Rightarrow> occupying_trains section)"

definition within_capacity :: "RailwayNetwork \<Rightarrow> string \<Rightarrow> bool" where
  "within_capacity net sid =
     (case sections net sid of
        None \<Rightarrow> True
      | Some section \<Rightarrow> int (length (occupying_trains section)) \<le> max_trains section)"

definition status_flagged :: "RailwayNetwork \<Rightarrow> string \<Rightarrow> bool" where
  "status_flagged net sid =
     (case sections net sid of
        None \<Rightarrow> True
      | Some section \<Rightarrow> occupying_trains section \<noteq> [] \<longrightarrow> current_status section = OCCUPIED)"

section \<open>models/train.py\<close>

datatype TrainType = EXPRESS | LOCAL | FREIGHT | MAINTENANCE | SPECIAL

datatype TrainPriority = LOW | MEDIUM | HIGH | CRITICAL | EMERGENCY

fun TrainPriority_value :: "TrainPriority \<Rightarrow> int" where
  "TrainPriority_value LOW = 1"
| "TrainPriority_value MEDIUM = 2"
| "TrainPriority_value HIGH = 3"
| "TrainPriority_value CRITICAL = 4"
| "TrainPriority_value EMERGENCY = 5"

text \<open>
  Attribute access on the enum class: \<open>TrainType.NAME\<close> is the member of that name, and
  raises AttributeError when the class has no such member.
\<close>

definition TrainType_attr :: "string \<Rightarrow> error + TrainType" where
  "TrainType_attr name =
     (if name = ''EXPRESS'' then Inr EXPRESS
      else if name = ''LOCAL'' then Inr LOCAL
      else if name = ''FREIGHT'' then Inr FREIGHT
      else if name = ''MAINTENANCE'' then Inr TrainType.MAINTENANCE
      else if name = ''SPECIAL'' then Inr SPECIAL
      else Inl AttributeError)"

text \<open>
  \<open>Train\<close>: a \<open>datetime\<close> is the number of microseconds since a fixed epoch, so that
  \<open>min\<close>, \<open>max\<close> and subtraction are those of the integers.
\<close>

record Train =
  train_id :: string
  train_number :: string
  train_type :: TrainType
  priority :: TrainPriority
  origin_station :: string
  destination_station :: string
  scheduled_departure :: int
  scheduled_arrival :: int
  actual_departure :: "int option"
  max_speed :: int
  route_sections :: "string list"

text \<open>
  The dict literal \<open>type_multipliers\<close> of \<open>calculate_priority_score\<close>: its keys are
  evaluated in the order written, each by attribute access on \<open>TrainType\<close>.
\<close>

definition type_multipliers :: "error + (TrainType \<times> rat) list" where
  "type_multipliers =
     bind_err (TrainType_attr ''EMERGENCY'') (\<lambda>k1.
     bind_err (TrainType_attr ''EXPRESS'') (\<lambda>k2.
     bind_err (TrainType_attr ''LOCAL'') (\<lambda>k3.
     bind_err (TrainType_attr ''FREIGHT'') (\<lambda>k4.
     bind_err (TrainType_attr ''MAINTENANCE'') (\<lambda>k5.
       Inr [(k1, 2), (k2, 3 / 2), (k3, 1), (k4, 4 / 5), (k5, 1 / 2)])))))"

text \<open>
  The score is a Python float; the model computes it in the rationals. \<open>delay\<close> is
  \<open>actual_departure - scheduled_departure\<close> and \<open>total_seconds()\<close> is a millionth of it.
\<close>

definition calculate_priority_score :: "Train \<Rightarrow> error + rat" where
  "calculate_priority_score train =
     (let base_score = of_int (TrainPriority_value (priority train)) in
      bind_err type_multipliers (\<lambda>tm.
        let type_multiplier = (case map_of tm (train_type train) of Some m \<Rightarrow> m | None \<Rightarrow> 1);
            delay_penalty =
              (case actual_departure train of
                 None \<Rightarrow> 0
               | Some ad \<Rightarrow>
                   let total_seconds = of_int (ad - scheduled_departure train) / 1000000
                   in if total_seconds > 0 then min (total_seconds / 3600) 2 else 0)
        in Inr (base_score * type_multiplier + delay_penalty)))"

record TrainConflict =
  conflict_id :: string
  train_ids :: "string list"
  section_id :: string
  conflict_type :: string
  conflict_start :: int
  conflict_end :: int
  severity :: int
  resolved :: bool

section \<open>optimization/simple\_scheduler.py\<close>

text \<open>
  The dicts the scheduler returns. The methods \<open>_get_train_route\<close>,
  \<open>_estimate_section_travel_time\<close>, \<open>_schedule_single_train\<close> and
  \<open>_calculate_schedule_impact\<close> are named here without the leading underscore.
\<close>

record section_schedule =
  section_id :: string
  start_time :: int
  end_time :: int
  duration :: int

record train_schedule =
  train_id :: string
  train_number :: string
  priority :: int
  sections :: "section_schedule list"

record metrics =
  total_trains :: int
  scheduled_trains :: int
  average_delay :: rat
  optimization_time :: rat
  solver_status :: string

text \<open>\<open>metrics = None\<close> stands for a schedule dict whose metrics are \<open>{}\<close> or absent.\<close>

record schedule =
  status :: string
  trains :: "train_schedule list"
  movements :: "unit list"
  metrics :: "metrics option"

definition get_train_route :: "RailwayNetwork \<Rightarrow> Train \<Rightarrow> string list" where
  "get_train_route net train =
     (if route_sections train \<noteq> [] then route_sections train
      else get_route_sections net (origin_station train) (destination_station train))"

text \<open>Python's \<open>int(x)\<close> on a float truncates towards zero.\<close>

definition py_int :: "rat \<Rightarrow> int" where
  "py_int x = (if 0 \<le> x then \<lfloor>x\<rfloor> else \<lceil>x\<rceil>)"

definition buffer_minutes :: "string \<Rightarrow> int" where
  "buffer_minutes v =
     (case map_of [(''platform'', 5), (''junction'', 3), (''single_line'', 2), (''double_line'', 1)] v of
        Some b \<Rightarrow> b
      | None \<Rightarrow> 2)"

text \<open>
  \<open>int(distance_km / speed_kmh * 60)\<close>. Python evaluates the quotient and the product in
  binary floating point, each rounded to the nearest double; this definition evaluates
  them exactly, so it gives Python's minute count only where the two roundings do not
  carry the product across an integer (they agree on the sample network: 9, 7, 1 and 0
  minutes for its sections at 100 km/h). The properties of schedules proved below use no
  fact about this number.
\<close>

definition travel_minutes :: "rat \<Rightarrow> int \<Rightarrow> int" where
  "travel_minutes distance_km speed_kmh = py_int (distance_km / of_int speed_kmh * 60)"

definition estimate_section_travel_time :: "RailwayNetwork \<Rightarrow> Train \<Rightarrow> string \<Rightarrow> int" where
  "estimate_section_travel_time net train sid =
     (case RailwayNetwork.sections net sid of
        None \<Rightarrow> 10
      | Some section \<Rightarrow>
          let distance_km = length_km section;
              speed_kmh = min (max_speed train) (max_speed_limit section)
          in if speed_kmh > 0
             then max (travel_minutes distance_km speed_kmh
                        + buffer_minutes (SectionType_value (section_type section))) 1
             else 10)"

text \<open>The loop of \<open>_schedule_single_train\<close> over the route, with \<open>current_time\<close> threaded.\<close>

fun place_sections ::
  "RailwayNetwork \<Rightarrow> Train \<Rightarrow> string list \<Rightarrow> int \<Rightarrow> section_schedule list \<Rightarrow> section_schedule list" where
  "place_sections net train [] current_time acc = acc"
| "place_sections net train (sid # rest) current_time acc =
     (let travel_time = estimate_section_travel_time net train sid;
          entry = \<lparr>section_schedule.section_id = sid,
                   start_time = current_time,
                   end_time = current_time + travel_time,
                   duration = travel_time\<rparr>
      in place_sections net train rest (current_time + travel_time) (acc @ [entry]))"

definition schedule_single_train :: "RailwayNetwork \<Rightarrow> Train \<Rightarrow> train_schedule option" where
  "schedule_single_train net train =
     (let route = get_train_route net train
      in if route = [] then None
         else Some \<lparr>train_schedule.train_id = Train.train_id train,
                    train_number = Train.train_number train,
                    priority = TrainPriority_value (Train.priority train),
                    sections = place_sections net train route 0 []\<rparr>)"

text \<open>
  \<open>sorted(trains, key=calculate_priority_score, reverse=True)\<close>: the keys are computed
  for every train in list order, the first exception propagating; the sort is stable, so
  trains of equal score keep their order.
\<close>

fun priority_keys :: "Train list \<Rightarrow> error + rat list" where
  "priority_keys [] = Inr []"
| "priority_keys (t # ts) =
     bind_err (calculate_priority_score t) (\<lambda>k.
     bind_err (priority_keys ts) (\<lambda>ks. Inr (k # ks)))"

definition sorted_by_priority :: "Train list \<Rightarrow> error + Train list" where
  "sorted_by_priority train_list =
     bind_err (priority_keys train_list) (\<lambda>ks.
       Inr (map snd (sort_key (\<lambda>kt. - fst kt) (zip ks train_list))))"

text \<open>The \<open>for train in sorted_trains\<close> loop of \<open>optimize_schedule\<close>.\<close>

fun schedule_loop ::
  "RailwayNetwork \<Rightarrow> Train list \<Rightarrow> train_schedule list \<Rightarrow> int \<Rightarrow> train_schedule list \<times> int" where
  "schedule_loop net [] scheduled total_delay = (scheduled, total_delay)"
| "schedule_loop net (train # rest) scheduled total_delay =
     (case schedule_single_train net train of
        None \<Rightarrow> schedule_loop net rest scheduled total_delay
      | Some ts \<Rightarrow>
          (if sections ts \<noteq> []
           then let estimated_completion = end_time (last (sections ts));
                    delay = max 0 (estimated_completion - 120)
                in schedule_loop net rest (scheduled @ [ts]) (total_delay + delay)
           else schedule_loop net rest (scheduled @ [ts]) total_delay))"

text \<open>Everything \<open>optimize_schedule\<close> does once the trains are sorted.\<close>

definition assemble_schedule :: "RailwayNetwork \<Rightarrow> Train list \<Rightarrow> Train list \<Rightarrow> schedule" where
  "assemble_schedule net train_list sorted_trains =
     (case schedule_loop net sorted_trains [] 0 of (scheduled, total_delay) \<Rightarrow>
        \<lparr>status = ''optimal'',
         trains = scheduled,
         movements = [],
         metrics = Some \<lparr>total_trains = int (length train_list),
                         scheduled_trains = int (length scheduled),
                         average_delay = of_int total_delay / of_int (max (int (length scheduled)) 1),
                         optimization_time = 1 / 10,
                         solver_status = ''OPTIMAL''\<rparr>\<rparr>)"

definition optimize_schedule :: "RailwayNetwork \<Rightarrow> Train list \<Rightarrow> int \<Rightarrow> error + schedule" where
  "optimize_schedule net train_list time_horizon_hours =
     bind_err (sorted_by_priority train_list) (\<lambda>sorted_trains.
       Inr (assemble_schedule net train_list sorted_trains))"









text \<open>
  \<open>_calculate_schedule_impact\<close>, the same in both optimizers. A schedule argument is
  \<open>None\<close> when the Python value is \<open>None\<close> or an empty dict; \<open>improvement = None\<close> is an
  impact dict without that key. The default \<open>float('inf')\<close> for a missing previous
  average is above every new average.
\<close>

record impact =
  changes :: int
  affected_trains :: "string list"
  improvement :: "bool option"

definition new_average_delay :: "schedule \<Rightarrow> rat" where
  "new_average_delay sch = (case metrics sch of None \<Rightarrow> 0 | Some m \<Rightarrow> average_delay m)"

definition calculate_schedule_impact :: "schedule option \<Rightarrow> schedule option \<Rightarrow> impact" where
  "calculate_schedule_impact old_schedule new_schedule =
     (case (old_schedule, new_schedule) of
        (Some old, Some new) \<Rightarrow>
          \<lparr>changes = \<bar>int (length (trains new)) - int (length (trains old))\<bar>,
           affected_trains = map train_schedule.train_id (trains new),
           improvement = Some (case metrics old of
                                 None \<Rightarrow> True
                               | Some m \<Rightarrow> new_average_delay new < average_delay m)\<rparr>
      | _ \<Rightarrow> \<lparr>changes = 0, affected_trains = [], improvement = None\<rparr>)"

section \<open>Properties of a schedule\<close>




text \<open>The trains the loop of \<open>optimize_schedule\<close> puts into the schedule, in the order given.\<close>

definition scheduled_of :: "RailwayNetwork \<Rightarrow> Train list \<Rightarrow> train_schedule list" where
  "scheduled_of net sorted_trains = fst (schedule_loop net sorted_trains [] 0)"

text \<open>
  Segments laid end to end from \<open>t0\<close> along a route, each lasting what the estimator says.
\<close>

fun chained :: "RailwayNetwork \<Rightarrow> Train \<Rightarrow> int \<Rightarrow> string list \<Rightarrow> section_schedule list \<Rightarrow> bool" where
  "chained net train t0 [] [] = True"
| "chained net train t0 (sid # route) (seg # segs) =
     (section_schedule.section_id seg = sid
      \<and> start_time seg = t0
      \<and> duration seg = estimate_section_travel_time net train sid
      \<and> end_time seg = start_time seg + duration seg
      \<and> chained net train (end_time seg) route segs)"
| "chained net train t0 _ _ = False"




text \<open>
  The impact summary as the specification words it: the trains whose segments in the
  new schedule differ from those in the previous one (a train in only one of the two
  schedules has changed).
\<close>

definition segments_of :: "schedule \<Rightarrow> string \<Rightarrow> section_schedule list option" where
  "segments_of sch tid =
     map_option train_schedule.sections (find (\<lambda>e. train_schedule.train_id e = tid) (trains sch))"

definition spec_changed_trains :: "schedule \<Rightarrow> schedule \<Rightarrow> string list" where
  "spec_changed_trains old new =
     filter (\<lambda>tid. segments_of old tid \<noteq> segments_of new tid)
       (remdups (map train_schedule.train_id (trains new) @ map train_schedule.train_id (trains old)))"

section \<open>The sample network and the trains of test\_system.py\<close>

definition sample_section :: "string \<Rightarrow> SectionType \<Rightarrow> rat \<Rightarrow> TrackSection" where
  "sample_section sid ty len =
     \<lparr>TrackSection.section_id = sid, section_type = ty, length_km = len,
      max_speed_limit = 100, max_trains = 1, connected_sections = [],
      current_status = AVAILABLE, occupying_trains = [], reserved_for = None\<rparr>"

definition create_sample_network :: RailwayNetwork where
  "create_sample_network =
     \<lparr>RailwayNetwork.sections =
        [''SEC_001'' \<mapsto> sample_section ''SEC_001'' DOUBLE_LINE (31 / 2),
         ''SEC_002'' \<mapsto> sample_section ''SEC_002'' DOUBLE_LINE (123 / 10),
         ''SEC_003'' \<mapsto> sample_section ''SEC_003'' JUNCTION (21 / 10),
         ''SEC_004'' \<mapsto> sample_section ''SEC_004'' PLATFORM (2 / 5),
         ''SEC_005'' \<mapsto> sample_section ''SEC_005'' PLATFORM (2 / 5)],
      adjacency_matrix =
        [''SEC_001'' \<mapsto> [''SEC_003''],
         ''SEC_002'' \<mapsto> [''SEC_003''],
         ''SEC_003'' \<mapsto> [''SEC_001'', ''SEC_002'', ''SEC_004'', ''SEC_005''],
         ''SEC_004'' \<mapsto> [''SEC_003''],
         ''SEC_005'' \<mapsto> [''SEC_003'']]\<rparr>"

text \<open>The three trains of the test script, with \<open>datetime.now()\<close> taken as the epoch.\<close>

definition T001 :: Train where
  "T001 = \<lparr>Train.train_id = ''T001'', Train.train_number = ''12345'', train_type = EXPRESS, Train.priority = HIGH,
           origin_station = ''SEC_001'', destination_station = ''SEC_004'',
           scheduled_departure = 0, scheduled_arrival = 7200000000,
           actual_departure = None, max_speed = 100,
           route_sections = [''SEC_001'', ''SEC_003'', ''SEC_004'']\<rparr>"

definition T002 :: Train where
  "T002 = \<lparr>Train.train_id = ''T002'', Train.train_number = ''67890'', train_type = LOCAL, Train.priority = MEDIUM,
           origin_station = ''SEC_002'', destination_station = ''SEC_005'',
           scheduled_departure = 1800000000, scheduled_arrival = 9000000000,
           actual_departure = None, max_speed = 100,
           route_sections = [''SEC_002'', ''SEC_003'', ''SEC_005'']\<rparr>"

definition T003 :: Train where
  "T003 = \<lparr>Train.train_id = ''T003'', Train.train_number = ''11111'', train_type = FREIGHT, Train.priority = LOW,
           origin_station = ''SEC_001'', destination_station = ''SEC_002'',
           scheduled_departure = 3600000000, scheduled_arrival = 14400000000,
           actual_departure = None, max_speed = 100,
           route_sections = [''SEC_001'', ''SEC_003'', ''SEC_002'']\<rparr>"

text \<open>
  The sample network with train T001 standing on Platform 2, and the sample network with
  room for two trains on Platform 2.
\<close>

definition sample_occupied :: RailwayNetwork where
  "sample_occupied =
     create_sample_network\<lparr>RailwayNetwork.sections :=
       (RailwayNetwork.sections create_sample_network)(''SEC_005'' \<mapsto>
          (sample_section ''SEC_005'' PLATFORM (2 / 5))
            \<lparr>occupying_trains := [''T001''], current_status := OCCUPIED\<rparr>)\<rparr>"

definition sample_double :: RailwayNetwork where
  "sample_double =
     create_sample_network\<lparr>RailwayNetwork.sections :=
       (RailwayNetwork.sections create_sample_network)(''SEC_005'' \<mapsto>
          (sample_section ''SEC_005'' PLATFORM (2 / 5))\<lparr>max_trains := 2\<rparr>)\<rparr>"


text \<open>What \<open>_schedule_single_train\<close> returns for T001 and for T003 on the sample network.\<close>

definition T001_schedule :: train_schedule where
  "T001_schedule =
     \<lparr>train_schedule.train_id = ''T001'', train_number = ''12345'', priority = 3,
      sections =
        [\<lparr>section_schedule.section_id = ''SEC_001'', start_time = 0, end_time = 10, duration = 10\<rparr>,
         \<lparr>section_schedule.section_id = ''SEC_003'', start_time = 10, end_time = 14, duration = 4\<rparr>,
         \<lparr>section_schedule.section_id = ''SEC_004'', start_time = 14, end_time = 19, duration = 5\<rparr>]\<rparr>"


text \<open>
  Two schedules of the same single train: in the second its one segment is ten minutes
  longer, and its average delay is the same.
\<close>

definition schedule_before :: schedule where
  "schedule_before =
     \<lparr>status = ''optimal'',
      trains = [\<lparr>train_schedule.train_id = ''T001'', train_number = ''12345'', priority = 3,
                 sections = [\<lparr>section_schedule.section_id = ''SEC_001'', start_time = 0,
                               end_time = 10, duration = 10\<rparr>]\<rparr>],
      movements = [],
      metrics = Some \<lparr>total_trains = 1, scheduled_trains = 1, average_delay = 0,
                      optimization_time = 1 / 10, solver_status = ''OPTIMAL''\<rparr>\<rparr>"

definition schedule_after :: schedule where
  "schedule_after =
     \<lparr>status = ''optimal'',
      trains = [\<lparr>train_schedule.train_id = ''T001'', train_number = ''12345'', priority = 3,
                 sections = [\<lparr>section_schedule.section_id = ''SEC_001'', start_time = 0,
                               end_time = 20, duration = 20\<rparr>]\<rparr>],
      movements = [],
      metrics = Some \<lparr>total_trains = 1, scheduled_trains = 1, average_delay = 0,
                      optimization_time = 1 / 10, solver_status = ''OPTIMAL''\<rparr>\<rparr>"






section \<open>Reserving, occupying and releasing a section\<close>

lemma reserve_section_returns:
  "\<exists>ok net'. reserve_section net sid tid = Inr (ok, net') \<and> (\<not> ok \<longrightarrow> net' = net)"
  by (auto simp: reserve_section_def bind_err_def dict_getitem_def split: option.splits)

lemma occupy_section_returns:
  "\<exists>ok net'. occupy_section net sid tid = Inr (ok, net') \<and> (\<not> ok \<longrightarrow> net' = net)"
  by (auto simp: occupy_section_def bind_err_def dict_getitem_def split: option.splits)

lemma release_section_returns:
  "\<exists>ok net'. release_section net sid tid = Inr (ok, net') \<and> (\<not> ok \<longrightarrow> net' = net)"
  by (auto simp: release_section_def bind_err_def dict_getitem_def list_remove_def Let_def
           split: option.splits)

lemma release_absent:
  "tid \<notin> set (occupants net sid) \<Longrightarrow> release_section net sid tid = Inr (False, net)"
  by (auto simp: release_section_def bind_err_def dict_getitem_def list_remove_def Let_def
                 occupants_def
           split: option.splits)

lemma release_occupants:
  "release_section net sid tid = Inr (ok, net') \<Longrightarrow>
   occupants net' s = (if s = sid then remove1 tid (occupants net sid) else occupants net s)"
  by (auto simp: release_section_def bind_err_def dict_getitem_def list_remove_def Let_def
                 occupants_def remove1_idem
           split: option.splits if_splits)

lemma call_returns: "\<exists>ok net'. call_section_op net c = Inr (ok, net')"
  using reserve_section_returns occupy_section_returns release_section_returns
  by (cases c) (simp_all, blast+)

lemma run_returns: "\<exists>net'. run_section_calls net cs = Inr net'"
proof (induction cs arbitrary: net)
  case Nil
  show ?case by simp
next
  case (Cons c cs)
  obtain ok net1 where "call_section_op net c = Inr (ok, net1)"
    using call_returns by blast
  then show ?case
    using Cons.IH[of net1] by (simp add: bind_err_def)
qed

lemma call_within_capacity:
  "call_section_op net c = Inr (ok, net') \<Longrightarrow> within_capacity net sid \<Longrightarrow> within_capacity net' sid"
  by (cases c)
     (auto simp: within_capacity_def reserve_section_def occupy_section_def release_section_def
                 bind_err_def dict_getitem_def list_remove_def Let_def length_remove1
           split: option.splits if_splits)

lemma call_status_flagged:
  "call_section_op net c = Inr (ok, net') \<Longrightarrow> status_flagged net sid \<Longrightarrow> status_flagged net' sid"
  by (cases c)
     (auto simp: status_flagged_def reserve_section_def occupy_section_def release_section_def
                 bind_err_def dict_getitem_def list_remove_def Let_def
           split: option.splits if_splits)

lemma call_single:
  "call_section_op net c = Inr (ok, net') \<Longrightarrow> status_flagged net sid \<Longrightarrow>
   length (occupants net sid) \<le> 1 \<Longrightarrow> length (occupants net' sid) \<le> 1"
  by (cases c)
     (auto simp: status_flagged_def occupants_def reserve_section_def occupy_section_def
                 release_section_def bind_err_def dict_getitem_def list_remove_def Let_def
                 length_remove1
           split: option.splits if_splits)

lemma occupy_flagged_fails:
  "status_flagged net sid \<Longrightarrow> occupants net sid \<noteq> [] \<Longrightarrow>
   occupy_section net sid tid = Inr (False, net)"
  by (auto simp: status_flagged_def occupants_def occupy_section_def bind_err_def dict_getitem_def
           split: option.splits)

lemma occupy_success_iff:
  "(\<exists>net'. occupy_section net sid tid = Inr (True, net')) \<longleftrightarrow>
   (\<exists>section. RailwayNetwork.sections net sid = Some section
       \<and> current_status section \<in> {AVAILABLE, RESERVED}
       \<and> int (length (occupying_trains section)) < max_trains section)"
  by (auto simp: occupy_section_def bind_err_def dict_getitem_def split: option.splits)

lemma occupy_success_state:
  "occupy_section net sid tid = Inr (True, net') \<Longrightarrow>
   (\<exists>section. RailwayNetwork.sections net' sid = Some section
       \<and> current_status section = OCCUPIED \<and> reserved_for section = None)
   \<and> occupants net' sid = occupants net sid @ [tid] \<and> status_flagged net' sid"
  by (auto simp: occupy_section_def bind_err_def dict_getitem_def occupants_def status_flagged_def
           split: option.splits if_splits)

lemma run_invariants:
  "run_section_calls net cs = Inr net' \<Longrightarrow>
     (within_capacity net sid \<longrightarrow> within_capacity net' sid)
   \<and> (status_flagged net sid \<longrightarrow> status_flagged net' sid)
   \<and> (status_flagged net sid \<and> length (occupants net sid) \<le> 1 \<longrightarrow> length (occupants net' sid) \<le> 1)"
proof (induction cs arbitrary: net)
  case Nil
  then show ?case by simp
next
  case (Cons c cs)
  obtain ok net1 where c1: "call_section_op net c = Inr (ok, net1)"
    using call_returns by blast
  with Cons.prems have r: "run_section_calls net1 cs = Inr net'"
    by (simp add: bind_err_def)
  show ?case
    using Cons.IH[OF r] call_within_capacity[OF c1] call_status_flagged[OF c1] call_single[OF c1]
    by blast
qed

section \<open>The priority score\<close>

lemma type_multipliers_raises: "type_multipliers = Inl AttributeError"
  by (simp add: type_multipliers_def TrainType_attr_def bind_err_def)

lemma priority_score_raises: "calculate_priority_score t = Inl AttributeError"
  by (simp add: calculate_priority_score_def type_multipliers_raises bind_err_def)

lemma sorted_by_priority_cases:
  "sorted_by_priority ts = (if ts = [] then Inr [] else Inl AttributeError)"
  by (cases ts) (simp_all add: sorted_by_priority_def priority_score_raises bind_err_def)

section \<open>Placing one train\<close>

lemma place_sections_chained:
  "\<exists>segs. place_sections net train route t0 acc = acc @ segs \<and> chained net train t0 route segs"
proof (induction route arbitrary: t0 acc)
  case Nil
  show ?case by simp
next
  case (Cons sid rest)
  let ?d = "estimate_section_travel_time net train sid"
  let ?e = "\<lparr>section_schedule.section_id = sid, start_time = t0, end_time = t0 + ?d, duration = ?d\<rparr>"
  from Cons.IH[of "t0 + ?d" "acc @ [?e]"]
  obtain segs where s: "place_sections net train rest (t0 + ?d) (acc @ [?e]) = (acc @ [?e]) @ segs"
    and c: "chained net train (t0 + ?d) rest segs" by blast
  have "place_sections net train (sid # rest) t0 acc = acc @ (?e # segs)"
    using s by (simp add: Let_def)
  moreover have "chained net train t0 (sid # rest) (?e # segs)"
    using c by simp
  ultimately show ?case by blast
qed

lemma chained_length: "chained net train t0 route segs \<Longrightarrow> length segs = length route"
  by (induction net train t0 route segs rule: chained.induct) auto

lemma chained_nth:
  "chained net train t0 route segs \<Longrightarrow> i < length route \<Longrightarrow>
     section_schedule.section_id (segs ! i) = route ! i
   \<and> duration (segs ! i) = estimate_section_travel_time net train (route ! i)
   \<and> end_time (segs ! i) = start_time (segs ! i) + duration (segs ! i)"
proof (induction net train t0 route segs arbitrary: i rule: chained.induct)
  case (2 net train t0 sid route seg segs)
  then show ?case by (cases i) auto
qed auto

lemma chained_consecutive:
  "chained net train t0 route segs \<Longrightarrow> Suc i < length route \<Longrightarrow>
     start_time (segs ! Suc i) = end_time (segs ! i)"
proof (induction net train t0 route segs arbitrary: i rule: chained.induct)
  case (2 net train t0 sid route seg segs)
  show ?case
  proof (cases i)
    case 0
    with 2 show ?thesis by (cases route; cases segs) auto
  next
    case (Suc j)
    with 2 show ?thesis by auto
  qed
qed auto


lemma schedule_single_train_Some:
  "schedule_single_train net train = Some e \<Longrightarrow>
     get_train_route net train \<noteq> []
   \<and> train_schedule.train_id e = Train.train_id train
   \<and> chained net train 0 (get_train_route net train) (train_schedule.sections e)"
  using place_sections_chained[of net train "get_train_route net train" 0 "[]"]
  by (auto simp: schedule_single_train_def Let_def split: if_splits)

lemma schedule_loop_fst:
  "fst (schedule_loop net ts acc d) = acc @ List.map_filter (schedule_single_train net) ts"
  by (induction ts arbitrary: acc d) (auto simp: List.map_filter_simps Let_def split: option.splits)

lemma scheduled_of_map_filter:
  "scheduled_of net ts = List.map_filter (schedule_single_train net) ts"
  by (simp add: scheduled_of_def schedule_loop_fst)

lemma scheduled_of_mem:
  "e \<in> set (scheduled_of net ts) \<longleftrightarrow> (\<exists>train \<in> set ts. schedule_single_train net train = Some e)"
  unfolding scheduled_of_map_filter
  by (induction ts) (auto simp: List.map_filter_simps split: option.splits)


section \<open>The scheduler on the sample data\<close>

lemma floor_rat_numeral: "\<lfloor>numeral a / numeral b :: rat\<rfloor> = numeral a div numeral b"
  using floor_divide_of_int_eq[of "numeral a" "numeral b", where ?'a = rat] by simp

lemmas sample_defs = create_sample_network_def sample_section_def T001_def T002_def T003_def

lemma schedule_T001: "schedule_single_train create_sample_network T001 = Some T001_schedule"
  by (simp add: schedule_single_train_def get_train_route_def sample_defs T001_schedule_def
        estimate_section_travel_time_def travel_minutes_def py_int_def buffer_minutes_def Let_def
        floor_rat_numeral)



section \<open>The schedule does not depend on capacities\<close>





section \<open>The assembled schedule\<close>

lemma assemble_fields:
  "status (assemble_schedule net ts srt) = ''optimal''
 \<and> trains (assemble_schedule net ts srt) = scheduled_of net srt
 \<and> (\<exists>m. metrics (assemble_schedule net ts srt) = Some m
        \<and> total_trains m = int (length ts)
        \<and> scheduled_trains m = int (length (scheduled_of net srt))
        \<and> solver_status m = ''OPTIMAL'')"
  by (simp add: assemble_schedule_def scheduled_of_def split: prod.splits)

text \<open>With at least one train, \<open>optimize_schedule\<close> ends in the exception of the priority score.\<close>

lemma optimize_schedule_raises:
  "ts \<noteq> [] \<Longrightarrow> optimize_schedule net ts h = Inl AttributeError"
  by (simp add: optimize_schedule_def sorted_by_priority_cases bind_err_def)

text \<open>Whatever \<open>optimize_schedule\<close> returns holds the trains its loop placed, taken in some order.\<close>

lemma priority_keys_length: "priority_keys ts = Inr ks \<Longrightarrow> length ks = length ts"
  by (induction ts arbitrary: ks) (auto simp: bind_err_def split: sum.splits)

lemma sorted_by_priority_set: "sorted_by_priority ts = Inr srt \<Longrightarrow> set srt = set ts"
proof -
  assume a: "sorted_by_priority ts = Inr srt"
  then obtain ks where k: "priority_keys ts = Inr ks"
    and s: "srt = map snd (sort_key (\<lambda>kt. - fst kt) (zip ks ts))"
    by (auto simp: sorted_by_priority_def bind_err_def split: sum.splits)
  have "set srt = snd ` set (zip ks ts)" using s by simp
  also have "\<dots> = set (map snd (zip ks ts))" by simp
  also have "\<dots> = set ts" using priority_keys_length[OF k] by (simp only: map_snd_zip)
  finally show ?thesis .
qed

lemma optimize_schedule_trains:
  "optimize_schedule net ts h = Inr r \<Longrightarrow> \<exists>srt. set srt = set ts \<and> trains r = scheduled_of net srt"
proof -
  assume a: "optimize_schedule net ts h = Inr r"
  then obtain srt where s: "sorted_by_priority ts = Inr srt" and r: "r = assemble_schedule net ts srt"
    by (auto simp: optimize_schedule_def bind_err_def split: sum.splits)
  have "set srt = set ts" using sorted_by_priority_set[OF s] .
  moreover have "trains r = scheduled_of net srt" using r assemble_fields[of net ts srt] by simp
  ultimately show ?thesis by blast
qed

section \<open>Grouping trains by section\<close>
























section \<open>Claims about the section operations\<close>

text \<open>
  Claim C7. \<open>reserve_section\<close>, \<open>occupy_section\<close> and \<open>release_section\<close> always return
  a boolean and never raise; a call that returns \<open>False\<close> leaves the network, and so the
  section's status, occupants and reservation, as it was. Releasing a train that is not on
  the section fails and changes nothing; in particular a second release, after the first
  has taken the train off the section, fails and changes nothing.
\<close>

theorem section_calls_fail_inert:
  "(\<exists>ok net'. reserve_section net sid tid = Inr (ok, net') \<and> (\<not> ok \<longrightarrow> net' = net))
 \<and> (\<exists>ok net'. occupy_section net sid tid = Inr (ok, net') \<and> (\<not> ok \<longrightarrow> net' = net))
 \<and> (\<exists>ok net'. release_section net sid tid = Inr (ok, net') \<and> (\<not> ok \<longrightarrow> net' = net))
 \<and> (tid \<notin> set (occupants net sid) \<longrightarrow> release_section net sid tid = Inr (False, net))
 \<and> (\<forall>ok net'. release_section net sid tid = Inr (ok, net') \<and> tid \<notin> set (occupants net' sid)
        \<longrightarrow> release_section net' sid tid = Inr (False, net'))"
  using reserve_section_returns[of net sid tid] occupy_section_returns[of net sid tid]
        release_section_returns[of net sid tid] release_absent
  by blast

theorem section_calls_fail_inert_witness:
  "release_section sample_occupied ''SEC_005'' ''T001'' = Inr (True, create_sample_network)
 \<and> ''T001'' \<notin> set (occupants create_sample_network ''SEC_005'')
 \<and> release_section create_sample_network ''SEC_005'' ''T001'' = Inr (False, create_sample_network)
 \<and> occupy_section sample_occupied ''SEC_005'' ''T002'' = Inr (False, sample_occupied)
 \<and> reserve_section sample_occupied ''SEC_005'' ''T002'' = Inr (False, sample_occupied)"
proof -
  have r: "release_section sample_occupied ''SEC_005'' ''T001'' = Inr (True, create_sample_network)"
    by (simp add: release_section_def sample_occupied_def create_sample_network_def
          sample_section_def bind_err_def dict_getitem_def list_remove_def Let_def)
  have a: "''T001'' \<notin> set (occupants create_sample_network ''SEC_005'')"
    by (simp add: occupants_def create_sample_network_def sample_section_def)
  have o: "occupy_section sample_occupied ''SEC_005'' ''T002'' = Inr (False, sample_occupied)"
    by (simp add: occupy_section_def sample_occupied_def create_sample_network_def
          sample_section_def bind_err_def dict_getitem_def)
  have v: "reserve_section sample_occupied ''SEC_005'' ''T002'' = Inr (False, sample_occupied)"
    by (simp add: reserve_section_def sample_occupied_def create_sample_network_def
          sample_section_def bind_err_def dict_getitem_def)
  from section_calls_fail_inert[of sample_occupied "''SEC_005''" "''T001''"] r a
  have "release_section create_sample_network ''SEC_005'' ''T001'' = Inr (False, create_sample_network)"
    by blast
  with r a o v show ?thesis by blast
qed

text \<open>
  Claim C10. \<open>occupy_section\<close> succeeds exactly when the section exists, its status is
  available or reserved, and it has fewer occupants than \<open>max_trains\<close>. A successful call
  leaves the status occupied, and after it, whatever calls follow, every
  \<open>occupy_section\<close> on that section fails as long as the section has an occupant. So from a
  section without occupants no sequence of reserve, occupy and release calls puts more than
  one train on it, whatever \<open>max_trains\<close> is; and every such sequence keeps the number of
  occupants at or below \<open>max_trains\<close> when it was so before.
\<close>

theorem occupy_single_occupant:
  "((\<exists>net'. occupy_section net sid tid = Inr (True, net')) \<longleftrightarrow>
      (\<exists>section. RailwayNetwork.sections net sid = Some section
          \<and> current_status section \<in> {AVAILABLE, RESERVED}
          \<and> int (length (occupying_trains section)) < max_trains section))
 \<and> (\<forall>net1. occupy_section net sid tid = Inr (True, net1) \<longrightarrow>
        (\<exists>section. RailwayNetwork.sections net1 sid = Some section \<and> current_status section = OCCUPIED)
      \<and> (\<forall>cs. \<exists>net2. run_section_calls net1 cs = Inr net2
            \<and> (occupants net2 sid \<noteq> [] \<longrightarrow> (\<forall>t. occupy_section net2 sid t = Inr (False, net2)))))
 \<and> (occupants net sid = [] \<longrightarrow>
        (\<forall>cs. \<exists>net2. run_section_calls net cs = Inr net2 \<and> length (occupants net2 sid) \<le> 1))
 \<and> (within_capacity net sid \<longrightarrow>
        (\<forall>cs. \<exists>net2. run_section_calls net cs = Inr net2 \<and> within_capacity net2 sid))"
proof (intro conjI allI impI)
  show "(\<exists>net'. occupy_section net sid tid = Inr (True, net')) \<longleftrightarrow>
      (\<exists>section. RailwayNetwork.sections net sid = Some section
          \<and> current_status section \<in> {AVAILABLE, RESERVED}
          \<and> int (length (occupying_trains section)) < max_trains section)"
    by (rule occupy_success_iff)
next
  fix net1 assume "occupy_section net sid tid = Inr (True, net1)"
  then show "\<exists>section. RailwayNetwork.sections net1 sid = Some section \<and> current_status section = OCCUPIED"
    using occupy_success_state by blast
next
  fix net1 cs assume o: "occupy_section net sid tid = Inr (True, net1)"
  obtain net2 where r: "run_section_calls net1 cs = Inr net2"
    using run_returns by blast
  have "status_flagged net1 sid"
    using occupy_success_state[OF o] by blast
  then have "status_flagged net2 sid"
    using run_invariants[OF r] by blast
  then have "occupants net2 sid \<noteq> [] \<longrightarrow> (\<forall>t. occupy_section net2 sid t = Inr (False, net2))"
    using occupy_flagged_fails by blast
  with r show "\<exists>net2. run_section_calls net1 cs = Inr net2
            \<and> (occupants net2 sid \<noteq> [] \<longrightarrow> (\<forall>t. occupy_section net2 sid t = Inr (False, net2)))"
    by blast
next
  fix cs assume e: "occupants net sid = []"
  obtain net2 where r: "run_section_calls net cs = Inr net2"
    using run_returns by blast
  have "status_flagged net sid"
    using e by (auto simp: status_flagged_def occupants_def split: option.splits)
  then have "length (occupants net2 sid) \<le> 1"
    using run_invariants[OF r] e by simp
  with r show "\<exists>net2. run_section_calls net cs = Inr net2 \<and> length (occupants net2 sid) \<le> 1"
    by blast
next
  fix cs assume w: "within_capacity net sid"
  obtain net2 where r: "run_section_calls net cs = Inr net2"
    using run_returns by blast
  then show "\<exists>net2. run_section_calls net cs = Inr net2 \<and> within_capacity net2 sid"
    using run_invariants[OF r] w by blast
qed

theorem occupy_single_occupant_witness:
  "occupants sample_double ''SEC_005'' = []
 \<and> within_capacity sample_double ''SEC_005''
 \<and> (\<exists>section. RailwayNetwork.sections sample_double ''SEC_005'' = Some section
        \<and> current_status section \<in> {AVAILABLE, RESERVED}
        \<and> max_trains section = 2)
 \<and> (\<exists>net1. occupy_section sample_double ''SEC_005'' ''T001'' = Inr (True, net1))
 \<and> (\<exists>net2. run_section_calls sample_double
              [Occupy ''SEC_005'' ''T001'', Occupy ''SEC_005'' ''T002''] = Inr net2
        \<and> length (occupants net2 ''SEC_005'') \<le> 1
        \<and> within_capacity net2 ''SEC_005'')"
proof -
  have e: "occupants sample_double ''SEC_005'' = []"
    by (simp add: occupants_def sample_double_def create_sample_network_def sample_section_def)
  have w: "within_capacity sample_double ''SEC_005''"
    by (simp add: within_capacity_def sample_double_def create_sample_network_def sample_section_def)
  have s: "\<exists>section. RailwayNetwork.sections sample_double ''SEC_005'' = Some section
        \<and> current_status section \<in> {AVAILABLE, RESERVED}
        \<and> max_trains section = 2
        \<and> int (length (occupying_trains section)) < max_trains section"
    by (simp add: sample_double_def create_sample_network_def sample_section_def)
  let ?cs = "[Occupy ''SEC_005'' ''T001'', Occupy ''SEC_005'' ''T002'']"
  note t = occupy_single_occupant[of sample_double "''SEC_005''" "''T001''"]
  from t s have o: "\<exists>net1. occupy_section sample_double ''SEC_005'' ''T001'' = Inr (True, net1)"
    by blast
  from t e obtain n where n: "run_section_calls sample_double ?cs = Inr n"
      "length (occupants n ''SEC_005'') \<le> 1"
    by blast
  from t w obtain m where m: "run_section_calls sample_double ?cs = Inr m"
      "within_capacity m ''SEC_005''"
    by blast
  from n m have "within_capacity n ''SEC_005''" by simp
  with e w s o n show ?thesis by blast
qed

section \<open>Claims about the priority score\<close>

text \<open>
  Claim C3. The claim is that the priority score is computed for every train and never
  fails. The function builds its table of multipliers with the key \<open>TrainType.EMERGENCY\<close>,
  which the enum \<open>TrainType\<close> does not have, so the call raises AttributeError for every
  train before any score is computed.
\<close>

theorem calculate_priority_score_fails:
  "TrainType_attr ''EMERGENCY'' = Inl AttributeError
   \<and> calculate_priority_score train = Inl AttributeError"
  by (simp add: priority_score_raises TrainType_attr_def)

section \<open>Claims about the schedule\<close>

text \<open>
  Claim C5. For every train that the scheduling loop of \<open>optimize_schedule\<close> places, and
  so for every train in a schedule that \<open>optimize_schedule\<close> returns, the schedule has
  one segment for each section of the train's route, in route order; each segment lasts at
  least the estimated travel time of that train on that section, and each segment starts
  no earlier than the one before it ends.
\<close>

theorem scheduled_segments_sequential:
  assumes "e \<in> set (scheduled_of net ts)
         \<or> (\<exists>r. optimize_schedule net ts h = Inr r \<and> e \<in> set (trains r))"
  shows "\<exists>train \<in> set ts.
           train_schedule.train_id e = Train.train_id train
         \<and> length (train_schedule.sections e) = length (get_train_route net train)
         \<and> (\<forall>i < length (get_train_route net train).
               section_schedule.section_id (train_schedule.sections e ! i) = get_train_route net train ! i
             \<and> estimate_section_travel_time net train (get_train_route net train ! i)
                  \<le> duration (train_schedule.sections e ! i)
             \<and> estimate_section_travel_time net train (get_train_route net train ! i)
                  \<le> end_time (train_schedule.sections e ! i) - start_time (train_schedule.sections e ! i))
         \<and> (\<forall>i. Suc i < length (get_train_route net train) \<longrightarrow>
               end_time (train_schedule.sections e ! i) \<le> start_time (train_schedule.sections e ! Suc i))"
proof -
  from assms have "\<exists>srt. set srt = set ts \<and> e \<in> set (scheduled_of net srt)"
  proof
    assume "e \<in> set (scheduled_of net ts)"
    then show ?thesis by blast
  next
    assume "\<exists>r. optimize_schedule net ts h = Inr r \<and> e \<in> set (trains r)"
    then obtain r where o: "optimize_schedule net ts h = Inr r" and e: "e \<in> set (trains r)"
      by blast
    from optimize_schedule_trains[OF o] e show ?thesis by auto
  qed
  then obtain srt where p: "set srt = set ts" and m: "e \<in> set (scheduled_of net srt)"
    by blast
  from m obtain train where t: "train \<in> set srt" and s: "schedule_single_train net train = Some e"
    by (auto simp: scheduled_of_mem)
  let ?route = "get_train_route net train"
  let ?segs = "train_schedule.sections e"
  from schedule_single_train_Some[OF s]
  have i: "train_schedule.train_id e = Train.train_id train" and c: "chained net train 0 ?route ?segs"
    by auto
  have "length ?segs = length ?route"
    using chained_length[OF c] .
  moreover have "\<forall>i < length ?route.
               section_schedule.section_id (?segs ! i) = ?route ! i
             \<and> estimate_section_travel_time net train (?route ! i) \<le> duration (?segs ! i)
             \<and> estimate_section_travel_time net train (?route ! i)
                  \<le> end_time (?segs ! i) - start_time (?segs ! i)"
    using chained_nth[OF c] by auto
  moreover have "\<forall>i. Suc i < length ?route \<longrightarrow> end_time (?segs ! i) \<le> start_time (?segs ! Suc i)"
    using chained_consecutive[OF c] by auto
  ultimately show ?thesis
    using t p i by blast
qed

theorem scheduled_segments_sequential_witness:
  "T001_schedule \<in> set (scheduled_of create_sample_network [T001, T002, T003])
 \<and> (\<exists>train \<in> set [T001, T002, T003].
        train_schedule.train_id T001_schedule = Train.train_id train
      \<and> length (train_schedule.sections T001_schedule)
           = length (get_train_route create_sample_network train)
      \<and> (\<forall>i. Suc i < length (get_train_route create_sample_network train) \<longrightarrow>
            end_time (train_schedule.sections T001_schedule ! i)
              \<le> start_time (train_schedule.sections T001_schedule ! Suc i)))"
proof -
  have m: "T001_schedule \<in> set (scheduled_of create_sample_network [T001, T002, T003])"
    by (simp add: scheduled_of_mem schedule_T001)
  from scheduled_segments_sequential[OF disjI1, OF m] m show ?thesis
    by blast
qed









section \<open>Claims about the impact summary\<close>

text \<open>
  Claim C8, as stated, fails: when the one train of the previous schedule gets a different
  segment in the new schedule, one train has changed, but \<open>changes\<close> is the difference of
  the two train counts, which is 0.
\<close>

theorem impact_changes_not_changed_count:
  "changes (calculate_schedule_impact (Some schedule_before) (Some schedule_after))
     \<noteq> int (length (spec_changed_trains schedule_before schedule_after))"
  by (simp add: calculate_schedule_impact_def spec_changed_trains_def segments_of_def
        schedule_before_def schedule_after_def)

text \<open>
  Claim C8, amended. When both schedules are present, \<open>changes\<close> is the absolute
  difference of the numbers of trains in the two schedules, \<open>affected_trains\<close> lists the
  identifier of every train of the new schedule (so it contains each train that has
  segments in the new schedule, changed or not), and \<open>improvement\<close> is true exactly when
  the new average delay is strictly less than the previous one (a missing new average
  counts as 0, a missing previous one as infinity). When either schedule is missing, the
  summary is 0 changes and no affected trains, without an improvement flag.
\<close>

theorem schedule_impact_summary:
  "calculate_schedule_impact (Some old) (Some new) =
     \<lparr>changes = \<bar>int (length (trains new)) - int (length (trains old))\<bar>,
      affected_trains = map train_schedule.train_id (trains new),
      improvement = Some (case metrics old of
                            None \<Rightarrow> True
                          | Some m \<Rightarrow> new_average_delay new < average_delay m)\<rparr>
 \<and> calculate_schedule_impact None any_new = \<lparr>changes = 0, affected_trains = [], improvement = None\<rparr>
 \<and> calculate_schedule_impact any_old None = \<lparr>changes = 0, affected_trains = [], improvement = None\<rparr>
 \<and> (segments_of new x \<noteq> None \<longrightarrow>
       x \<in> set (affected_trains (calculate_schedule_impact (Some old) (Some new))))
 \<and> (\<forall>mo mn. metrics old = Some mo \<and> metrics new = Some mn \<longrightarrow>
       improvement (calculate_schedule_impact (Some old) (Some new))
         = Some (average_delay mn < average_delay mo))"
  by (auto simp: calculate_schedule_impact_def new_average_delay_def segments_of_def find_None_iff
           split: option.splits)

theorem schedule_impact_summary_witness:
  "segments_of schedule_after ''T001'' \<noteq> None
 \<and> ''T001'' \<in> set (affected_trains (calculate_schedule_impact (Some schedule_before) (Some schedule_after)))
 \<and> (\<exists>mo mn. metrics schedule_before = Some mo \<and> metrics schedule_after = Some mn
       \<and> improvement (calculate_schedule_impact (Some schedule_before) (Some schedule_after))
           = Some (average_delay mn < average_delay mo))"
proof -
  have s: "segments_of schedule_after ''T001'' \<noteq> None"
    by (simp add: segments_of_def schedule_after_def)
  have m: "\<exists>mo mn. metrics schedule_before = Some mo \<and> metrics schedule_after = Some mn"
    by (simp add: schedule_before_def schedule_after_def)
  from schedule_impact_summary[of schedule_before schedule_after _ _ "''T001''"] s m
  show ?thesis
    by blast
qed

section \<open>Claims about conflict detection\<close>




end
